theory Spec2Isabelle
  imports Complex_Main "HOL-Library.Word"
begin

section \<open>Python values\<close>

text \<open>
  The values that flow through \<^verbatim>\<open>backend/app.py\<close> are what a JSON document parses to in
  Python: \<^verbatim>\<open>None\<close>, booleans, integers, floats, strings, lists and dictionaries with string
  keys. A float is an IEEE double: either a finite value (kept here as the exact rational
  it denotes) or one of the three non-finite values.
\<close>

datatype pyfloat = Finite rat | PosInf | NegInf | NaN

datatype pyval =
    PNone
  | PBool bool
  | PInt int
  | PFloat pyfloat
  | PStr string
  | PList "pyval list"
  | PDict "(string \<times> pyval) list"

datatype py_error = AttributeError | JSONDecodeError | ValueError | RecursionError

text \<open>Python truthiness, as \<^verbatim>\<open>bool(x)\<close>, \<^verbatim>\<open>not x\<close>, \<^verbatim>\<open>and\<close> and \<^verbatim>\<open>or\<close> decide it.\<close>

fun float_nonzero :: "pyfloat \<Rightarrow> bool" where
  "float_nonzero (Finite q) = (q \<noteq> 0)"
| "float_nonzero PosInf = True"
| "float_nonzero NegInf = True"
| "float_nonzero NaN = True"

fun truthy :: "pyval \<Rightarrow> bool" where
  "truthy PNone = False"
| "truthy (PBool b) = b"
| "truthy (PInt i) = (i \<noteq> 0)"
| "truthy (PFloat f) = float_nonzero f"
| "truthy (PStr s) = (s \<noteq> [])"
| "truthy (PList xs) = (xs \<noteq> [])"
| "truthy (PDict kvs) = (kvs \<noteq> [])"

definition py_and :: "pyval \<Rightarrow> pyval \<Rightarrow> pyval" where
  "py_and a b = (if truthy a then b else a)"

definition py_or :: "pyval \<Rightarrow> pyval \<Rightarrow> pyval" where
  "py_or a b = (if truthy a then a else b)"

text \<open>
  \<^verbatim>\<open>data.get(key, default)\<close>: only a dictionary has the method; on any other value the
  attribute lookup raises \<^verbatim>\<open>AttributeError\<close>. A \<open>PDict\<close> holds the items of the dictionary,
  one per key.
\<close>

fun dict_get :: "pyval \<Rightarrow> string \<Rightarrow> pyval \<Rightarrow> py_error + pyval" where
  "dict_get (PDict kvs) k d = Inr (case map_of kvs k of None \<Rightarrow> d | Some v \<Rightarrow> v)"
| "dict_get PNone k d = Inl AttributeError"
| "dict_get (PBool b) k d = Inl AttributeError"
| "dict_get (PInt i) k d = Inl AttributeError"
| "dict_get (PFloat f) k d = Inl AttributeError"
| "dict_get (PStr s) k d = Inl AttributeError"
| "dict_get (PList xs) k d = Inl AttributeError"

section \<open>String helpers of the standard library\<close>

text \<open>
  \<^verbatim>\<open>str.removeprefix\<close> and \<^verbatim>\<open>str.strip\<close>. A header value reaches the application decoded
  as Latin-1, one character per byte; the characters \<^verbatim>\<open>str.isspace\<close> accepts below 256 are
  9 to 13, 28 to 32, 133 and 160.
\<close>

definition startswith :: "string \<Rightarrow> string \<Rightarrow> bool" where
  "startswith s p = (take (length p) s = p)"

definition removeprefix :: "string \<Rightarrow> string \<Rightarrow> string" where
  "removeprefix s p = (if startswith s p then drop (length p) s else s)"

definition isspace :: "char \<Rightarrow> bool" where
  "isspace c = (let n = (of_char c :: nat) in
     (9 \<le> n \<and> n \<le> 13) \<or> (28 \<le> n \<and> n \<le> 32) \<or> n = 133 \<or> n = 160)"

definition lstrip :: "string \<Rightarrow> string" where
  "lstrip s = dropWhile isspace s"

definition rstrip :: "string \<Rightarrow> string" where
  "rstrip s = rev (dropWhile isspace (rev s))"

definition strip :: "string \<Rightarrow> string" where
  "strip s = rstrip (lstrip s)"

text \<open>\<^verbatim>\<open>str(n)\<close> for a natural number: its decimal digits.\<close>

definition digit_char :: "nat \<Rightarrow> char" where
  "digit_char n = ''0123456789'' ! n"

fun str_nat :: "nat \<Rightarrow> string" where
  "str_nat n = (if n < 10 then [digit_char n] else str_nat (n div 10) @ [digit_char (n mod 10)])"

declare str_nat.simps [simp del]

section \<open>Token generation\<close>

text \<open>
  \<^verbatim>\<open>secrets.token_hex(n)\<close> draws \<^verbatim>\<open>n\<close> bytes from the operating system's random source and
  writes each as two lower-case hexadecimal digits, high nibble first. The random source
  is the sequence of bytes it will deliver; drawing \<^verbatim>\<open>n\<close> bytes consumes the first \<^verbatim>\<open>n\<close>.
\<close>

type_synonym byte = "8 word"

type_synonym entropy = "nat \<Rightarrow> byte"

definition hex_digits :: string where
  "hex_digits = ''0123456789abcdef''"

definition hex_digit :: "nat \<Rightarrow> char" where
  "hex_digit n = hex_digits ! n"

definition hex_byte :: "byte \<Rightarrow> string" where
  "hex_byte b = [hex_digit (unat b div 16), hex_digit (unat b mod 16)]"

definition bytes_hex :: "byte list \<Rightarrow> string" where
  "bytes_hex bs = concat (map hex_byte bs)"

definition token_bytes :: "nat \<Rightarrow> entropy \<Rightarrow> byte list \<times> entropy" where
  "token_bytes n rnd = (map rnd [0..<n], \<lambda>i. rnd (i + n))"

definition token_hex :: "nat \<Rightarrow> entropy \<Rightarrow> string \<times> entropy" where
  "token_hex n rnd = (case token_bytes n rnd of (bs, rnd') \<Rightarrow> (bytes_hex bs, rnd'))"

definition is_hex :: "char \<Rightarrow> bool" where
  "is_hex c = (c \<in> set hex_digits)"

section \<open>The backend: \<^verbatim>\<open>backend/app.py\<close>\<close>

text \<open>
  The process state is the module-level dictionary \<^verbatim>\<open>SESSIONS\<close> together with the random
  source and two settings of the interpreter that the JSON decoder obeys. The keys of
  \<^verbatim>\<open>SESSIONS\<close> are the strings \<^verbatim>\<open>token_hex\<close> returned; the value stored is whatever
  \<^verbatim>\<open>data.get("username", "")\<close> returned.

  \<open>recursion_room\<close> is how many levels the decoder can descend below the outermost array
  or object of a document before the interpreter's recursion limit stops it (the limit
  is 1000 by default, less what the call stack already holds; the outermost level is
  always within reach, as the handler's own calls nest deeper than that).
  \<open>int_max_str_digits\<close> is \<^verbatim>\<open>sys.get_int_max_str_digits()\<close>: the longest digit string
  \<^verbatim>\<open>int\<close> converts, 4300 by default, 0 for no limit.
\<close>

record state =
  SESSIONS :: "string \<rightharpoonup> pyval"
  entropy :: entropy
  recursion_room :: nat
  int_max_str_digits :: nat

definition SESSION_COOKIE :: string where
  "SESSION_COOKIE = ''ibkr_session''"

definition mock_login :: "pyval \<Rightarrow> pyval \<Rightarrow> bool" where
  "mock_login username password = truthy (py_and username password)"

text \<open>
  The float literals of the snapshot are the doubles nearest to 187.42, 141.6, 422.15,
  -51.2 and 1000.00, written as the rationals they are equal to.
\<close>

definition mock_fetch_portfolio :: "string \<Rightarrow> pyval" where
  "mock_fetch_portfolio u = PDict
     [(''positions'', PList
        [PDict [(''symbol'', PStr ''AAPL''), (''quantity'', PInt 120),
                (''price'', PFloat (Finite (Fract 6594255016888893 35184372088832))),
                (''pnl'', PFloat (Finite (Fract 4982107087778611 35184372088832)))],
         PDict [(''symbol'', PStr ''MSFT''), (''quantity'', PInt 80),
                (''price'', PFloat (Finite (Fract 3713270669325107 8796093022208))),
                (''pnl'', PFloat (Finite (Fract (- 3602879701896397) 70368744177664)))],
         PDict [(''symbol'', PStr ''DMSO''), (''quantity'', PInt 800),
                (''price'', PFloat (Finite 1000)),
                (''pnl'', PInt 1000)]]),
      (''cash'', PInt 18250)]"

text \<open>
  \<^verbatim>\<open>token in SESSIONS\<close> for an optional string: \<^verbatim>\<open>None\<close> is hashable and is never a key.
\<close>

fun validate_token :: "state \<Rightarrow> string option \<Rightarrow> bool" where
  "validate_token s None = False"
| "validate_token s (Some t) = (SESSIONS s t \<noteq> None)"

subsection \<open>Requests and responses\<close>

text \<open>
  The body of a POST request as \<^verbatim>\<open>request.get_json(silent=True)\<close> sees it:
  \<^item> \<open>Undeclared\<close>: the request's content type is not JSON; the body is never decoded;
  \<^item> \<open>Absent\<close>: declared as JSON, with no body;
  \<^item> \<open>NotJson d\<close>: declared as JSON, but the bytes are not a JSON document; \<open>d\<close> is how many
    arrays and objects are open, at the deepest, in the part the decoder reads before it
    meets the error (a run of \<open>d\<close> opening brackets and nothing else, for one);
  \<^item> \<open>Json v\<close>: declared as JSON, the bytes a JSON document that denotes \<open>v\<close>.
\<close>

datatype payload = Undeclared | Absent | NotJson nat | Json pyval

text \<open>
  What \<^verbatim>\<open>json.loads\<close> meets while it reads a document, in document order. Entering an
  array or an object takes one level of the \<open>room\<close> left, and \<^verbatim>\<open>RecursionError\<close> is raised
  when none is left; an integer literal with more digits than the limit \<open>m\<close> (when \<open>m\<close> is
  not 0) makes \<^verbatim>\<open>int\<close> raise \<^verbatim>\<open>ValueError\<close>. The first error met is the one raised.
\<close>

fun first_error :: "py_error option list \<Rightarrow> py_error option" where
  "first_error [] = None"
| "first_error (None # es) = first_error es"
| "first_error (Some e # es) = Some e"

definition int_digits :: "int \<Rightarrow> nat" where
  "int_digits i = length (str_nat (nat \<bar>i\<bar>))"

fun scan :: "nat \<Rightarrow> nat \<Rightarrow> pyval \<Rightarrow> py_error option" where
  "scan room m PNone = None"
| "scan room m (PBool b) = None"
| "scan room m (PInt i) = (if m \<noteq> 0 \<and> m < int_digits i then Some ValueError else None)"
| "scan room m (PFloat f) = None"
| "scan room m (PStr s) = None"
| "scan 0 m (PList xs) = Some RecursionError"
| "scan (Suc room) m (PList xs) = first_error (map (scan room m) xs)"
| "scan 0 m (PDict kvs) = Some RecursionError"
| "scan (Suc room) m (PDict kvs) = first_error (map (\<lambda>kv. scan room m (snd kv)) kvs)"

text \<open>
  \<^verbatim>\<open>json.loads\<close> on the bytes of a document: the value, or the first error met.
\<close>

definition loads :: "state \<Rightarrow> pyval \<Rightarrow> py_error + pyval" where
  "loads s v =
     (case scan (Suc (recursion_room s)) (int_max_str_digits s) v of
        None \<Rightarrow> Inr v
      | Some e \<Rightarrow> Inl e)"

text \<open>
  The \<^verbatim>\<open>try\<close> statement of \<^verbatim>\<open>get_json\<close> with \<^verbatim>\<open>silent=True\<close>: \<^verbatim>\<open>None\<close> in place of a
  \<^verbatim>\<open>ValueError\<close> (\<^verbatim>\<open>except ValueError\<close> catches \<^verbatim>\<open>JSONDecodeError\<close>, a subclass, too); any
  other exception passes through.
\<close>

definition is_ValueError :: "py_error \<Rightarrow> bool" where
  "is_ValueError e = (e = ValueError \<or> e = JSONDecodeError)"

definition silent :: "py_error + pyval \<Rightarrow> py_error + pyval" where
  "silent r = (case r of Inl e \<Rightarrow> if is_ValueError e then Inr PNone else Inl e | Inr v \<Rightarrow> Inr v)"

text \<open>
  \<^verbatim>\<open>request.get_json(silent=True)\<close>: \<^verbatim>\<open>None\<close> without decoding when the body is not declared
  as JSON; otherwise what \<^verbatim>\<open>json.loads\<close> does with the bytes, under that \<^verbatim>\<open>try\<close>. On no
  bytes and on bytes that are not a document \<^verbatim>\<open>json.loads\<close> raises \<^verbatim>\<open>JSONDecodeError\<close>,
  unless it runs out of room before it meets the error.
\<close>

fun get_json_silent :: "state \<Rightarrow> payload \<Rightarrow> py_error + pyval" where
  "get_json_silent s Undeclared = Inr PNone"
| "get_json_silent s Absent = silent (Inl JSONDecodeError)"
| "get_json_silent s (NotJson d) =
     silent (if Suc (recursion_room s) < d then Inl RecursionError else Inl JSONDecodeError)"
| "get_json_silent s (Json v) = silent (loads s v)"

declare get_json_silent.simps [simp del]

record cookie =
  cookie_name :: string
  cookie_value :: string
  httponly :: bool
  samesite :: string
  secure :: bool
  max_age :: nat

record response =
  status :: nat
  body :: pyval
  set_cookie :: "cookie option"

record get_request =
  cookies :: "string \<rightharpoonup> string"
  headers :: "string \<rightharpoonup> string"

definition invalid_credentials :: response where
  "invalid_credentials =
     \<lparr>status = 401, body = PDict [(''error'', PStr ''invalid credentials'')], set_cookie = None\<rparr>"

definition unauthorized :: response where
  "unauthorized =
     \<lparr>status = 401, body = PDict [(''error'', PStr ''unauthorized'')], set_cookie = None\<rparr>"

definition login_ok :: "string \<Rightarrow> response" where
  "login_ok token =
     \<lparr>status = 200,
      body = PDict [(''ok'', PBool True), (''token'', PStr token)],
      set_cookie = Some \<lparr>cookie_name = SESSION_COOKIE, cookie_value = token, httponly = True,
                         samesite = ''Lax'', secure = False, max_age = 60 * 60 * 4\<rparr>\<rparr>"

subsection \<open>POST /api/login\<close>

text \<open>
  An exception that escapes the handler (Flask answers 500) is the left injection; it is
  raised before anything is drawn or stored, so the state is returned as it was.
\<close>

definition login :: "state \<Rightarrow> payload \<Rightarrow> (py_error + response) \<times> state" where
  "login s p =
     (case get_json_silent s p of
        Inl e \<Rightarrow> (Inl e, s)
      | Inr j \<Rightarrow>
          (let data = py_or j (PDict []) in
           case dict_get data ''username'' (PStr '''') of
             Inl e \<Rightarrow> (Inl e, s)
           | Inr username \<Rightarrow>
               (case dict_get data ''password'' (PStr '''') of
                  Inl e \<Rightarrow> (Inl e, s)
                | Inr password \<Rightarrow>
                    if \<not> mock_login username password then (Inr invalid_credentials, s)
                    else
                      (case token_hex 16 (entropy s) of
                         (token, rnd') \<Rightarrow>
                           (Inr (login_ok token),
                            s\<lparr>SESSIONS := (SESSIONS s)(token \<mapsto> username),
                              entropy := rnd'\<rparr>)))))"

subsection \<open>GET /api/portfolio\<close>

text \<open>
  Line 78: the cookie if it is present and non-empty (Python's \<^verbatim>\<open>or\<close>), else the
  \<^verbatim>\<open>Authorization\<close> header (the empty string when absent) without a leading
  \<^verbatim>\<open>Bearer \<close> and stripped.
\<close>

definition header_token :: "get_request \<Rightarrow> string" where
  "header_token r =
     strip (removeprefix (case headers r ''Authorization'' of None \<Rightarrow> '''' | Some h \<Rightarrow> h)
              ''Bearer '')"

definition presented_token :: "get_request \<Rightarrow> string" where
  "presented_token r =
     (case cookies r SESSION_COOKIE of
        None \<Rightarrow> header_token r
      | Some c \<Rightarrow> if c \<noteq> [] then c else header_token r)"

definition portfolio :: "state \<Rightarrow> get_request \<Rightarrow> response" where
  "portfolio s r =
     (let token = presented_token r in
      if \<not> validate_token s (Some token) then unauthorized
      else \<lparr>status = 200, body = mock_fetch_portfolio token, set_cookie = None\<rparr>)"

subsection \<open>The server as a transition system\<close>

datatype request = POST_login payload | GET_portfolio get_request

fun handle :: "state \<Rightarrow> request \<Rightarrow> (py_error + response) \<times> state" where
  "handle s (POST_login p) = login s p"
| "handle s (GET_portfolio r) = (Inr (portfolio s r), s)"

fun run :: "state \<Rightarrow> request list \<Rightarrow> state" where
  "run s [] = s"
| "run s (q # qs) = run (snd (handle s q)) qs"

text \<open>The token a response to a login carries, when the login succeeded.\<close>

definition issued_token :: "(py_error + response) \<Rightarrow> string option" where
  "issued_token out =
     (case out of
        Inl e \<Rightarrow> None
      | Inr resp \<Rightarrow> (case set_cookie resp of None \<Rightarrow> None | Some c \<Rightarrow> Some (cookie_value c)))"

fun issued :: "state \<Rightarrow> request list \<Rightarrow> string list" where
  "issued s [] = []"
| "issued s (q # qs) =
     (case issued_token (fst (handle s q)) of
        None \<Rightarrow> issued (snd (handle s q)) qs
      | Some t \<Rightarrow> t # issued (snd (handle s q)) qs)"

text \<open>
  The process as it starts: \<^verbatim>\<open>SESSIONS = {}\<close>, whatever the interpreter's settings and the
  random source are.
\<close>

definition init :: "nat \<Rightarrow> nat \<Rightarrow> entropy \<Rightarrow> state" where
  "init room m rnd =
     \<lparr>SESSIONS = Map.empty, entropy = rnd, recursion_room = room, int_max_str_digits = m\<rparr>"

section \<open>The command-line client: \<^verbatim>\<open>backend/cli_driver.py\<close>\<close>

text \<open>
  What the two subcommands send. \<^verbatim>\<open>login\<close> posts the JSON object
  \<^verbatim>\<open>{"username": user, "password": password}\<close>; \<^verbatim>\<open>portfolio\<close> sends no cookie and the header
  \<^verbatim>\<open>Authorization: Bearer <token>\<close>.
\<close>

definition login_request :: "string \<Rightarrow> string \<Rightarrow> payload" where
  "login_request user password =
     Json (PDict [(''username'', PStr user), (''password'', PStr password)])"

definition portfolio_request :: "string \<Rightarrow> get_request" where
  "portfolio_request token =
     \<lparr>cookies = Map.empty, headers = [''Authorization'' \<mapsto> ''Bearer '' @ token]\<rparr>"

text \<open>
  What comes back from \<^verbatim>\<open>requests\<close>: the status code, the body as text, and what
  \<^verbatim>\<open>resp.json()\<close> gives (it raises when the body is not a JSON document).
\<close>

record http_response =
  status_code :: nat
  resp_text :: string
  resp_json :: "py_error + pyval"

text \<open>
  How an invocation ends: the command runs to its end or raises \<^verbatim>\<open>SystemExit\<close>, so the
  process exits with a code, having passed some values to \<^verbatim>\<open>click.echo\<close> for standard
  output and some lines for standard error; or another exception escapes the command
  (the interpreter then prints a traceback, not these lines, and the exit status is
  non-zero as well).
\<close>

datatype cli_result = Exit nat "pyval list" "string list" | Uncaught py_error

definition login_cmd :: "http_response \<Rightarrow> cli_result" where
  "login_cmd resp =
     (if status_code resp \<noteq> 200
      then Exit 1 [] [''Login failed ('' @ str_nat (status_code resp) @ ''): '' @ resp_text resp]
      else
        (case resp_json resp of
           Inl e \<Rightarrow> Uncaught e
         | Inr j \<Rightarrow>
             (case dict_get j ''token'' PNone of
                Inl e \<Rightarrow> Uncaught e
              | Inr token \<Rightarrow> Exit 0 [token] [])))"

text \<open>
  \<^verbatim>\<open>json.dumps(value, indent=2)\<close> belongs to the standard library; the command is
  parameterised by it.
\<close>

definition portfolio_cmd :: "(pyval \<Rightarrow> string) \<Rightarrow> http_response \<Rightarrow> cli_result" where
  "portfolio_cmd dumps_indent2 resp =
     (if status_code resp \<noteq> 200
      then Exit 1 [] [''Request failed ('' @ str_nat (status_code resp) @ ''): '' @ resp_text resp]
      else
        (case resp_json resp of
           Inl e \<Rightarrow> Uncaught e
         | Inr j \<Rightarrow> Exit 0 [PStr (dumps_indent2 j)] []))"

definition is_2xx :: "nat \<Rightarrow> bool" where
  "is_2xx n = (200 \<le> n \<and> n < 300)"

section \<open>Example requests and states\<close>

text \<open>
  Concrete requests and a concrete reachable state, used where a property is evaluated
  at an input: a request with both a cookie and a bearer header, one with only an
  \<^verbatim>\<open>Authorization\<close> header, one with neither, and the state after one successful login
  when the random source delivers zero bytes.
\<close>

definition cookie_and_bearer :: "string \<Rightarrow> string \<Rightarrow> get_request" where
  "cookie_and_bearer c t =
     \<lparr>cookies = [SESSION_COOKIE \<mapsto> c], headers = [''Authorization'' \<mapsto> ''Bearer '' @ t]\<rparr>"

definition raw_authorization :: "string \<Rightarrow> get_request" where
  "raw_authorization h = \<lparr>cookies = Map.empty, headers = [''Authorization'' \<mapsto> h]\<rparr>"

definition no_credentials :: get_request where
  "no_credentials = \<lparr>cookies = Map.empty, headers = Map.empty\<rparr>"

text \<open>
  Two random sources: one that delivers zero bytes only, so that every token drawn is the
  same, and one that delivers 0, 1, 2, ..., so that successive tokens differ. \<open>start\<close> and
  \<open>counting_start\<close> are the process as it starts on them with the default settings
  (room for 1000 nested arrays and objects in all, 4300 digits).
\<close>

definition zero_entropy :: entropy where
  "zero_entropy i = 0"

definition counting_entropy :: entropy where
  "counting_entropy i = of_nat i"

definition start :: state where
  "start = init 999 4300 zero_entropy"

definition counting_start :: state where
  "counting_start = init 999 4300 counting_entropy"

definition alice_logged_in :: state where
  "alice_logged_in = run start [POST_login (login_request ''alice'' ''secret'')]"

definition alice_counted :: state where
  "alice_counted = run counting_start [POST_login (login_request ''alice'' ''secret'')]"

text \<open>\<open>nest n v\<close> is \<open>v\<close> inside \<open>n\<close> one-element arrays: \<^verbatim>\<open>[[...[v]...]]\<close>.\<close>

fun nest :: "nat \<Rightarrow> pyval \<Rightarrow> pyval" where
  "nest 0 v = v"
| "nest (Suc n) v = PList [nest n v]"

section \<open>Properties\<close>

subsection \<open>Tokens\<close>

lemma length_bytes_hex: "length (bytes_hex bs) = 2 * length bs"
  by (induction bs) (simp_all add: bytes_hex_def hex_byte_def)

lemma is_hex_hex_digit: "n < 16 \<Longrightarrow> is_hex (hex_digit n)"
  unfolding is_hex_def hex_digit_def
  by (rule nth_mem) (simp add: hex_digits_def)

lemma is_hex_hex_byte: "list_all is_hex (hex_byte b)"
proof -
  have "unat b < 256" using unsigned_less [of b] by simp
  then have "unat b div 16 < 16" by simp
  then show ?thesis by (simp add: hex_byte_def is_hex_hex_digit)
qed

lemma is_hex_bytes_hex: "list_all is_hex (bytes_hex bs)"
  by (induction bs) (simp_all add: bytes_hex_def is_hex_hex_byte)

lemma token_hex_length: "length (fst (token_hex n rnd)) = 2 * n"
  by (simp add: token_hex_def token_bytes_def length_bytes_hex)

lemma token_hex_is_hex: "list_all is_hex (fst (token_hex n rnd))"
  by (simp add: token_hex_def token_bytes_def is_hex_bytes_hex)

lemma zero_token: "fst (token_hex 16 zero_entropy) = ''00000000000000000000000000000000''"
  by (simp add: token_hex_def token_bytes_def bytes_hex_def hex_byte_def hex_digit_def
      hex_digits_def zero_entropy_def upt_rec)

lemma zero_entropy_rest: "snd (token_hex 16 zero_entropy) = zero_entropy"
  by (simp add: token_hex_def token_bytes_def zero_entropy_def fun_eq_iff)

lemma counting_token:
  "fst (token_hex 16 counting_entropy) = ''000102030405060708090a0b0c0d0e0f''"
  by (simp add: token_hex_def token_bytes_def bytes_hex_def hex_byte_def hex_digit_def
      hex_digits_def counting_entropy_def upt_rec)

lemma counting_token_next:
  "fst (token_hex 16 (snd (token_hex 16 counting_entropy))) = ''101112131415161718191a1b1c1d1e1f''"
  by (simp add: token_hex_def token_bytes_def bytes_hex_def hex_byte_def hex_digit_def
      hex_digits_def counting_entropy_def upt_rec)

subsection \<open>The decoder\<close>

lemma first_error_append:
  "first_error (es @ fs) = (case first_error es of None \<Rightarrow> first_error fs | Some e \<Rightarrow> Some e)"
  by (induction es rule: first_error.induct) simp_all

lemma first_error_all_None: "\<forall>e\<in>set es. e = None \<Longrightarrow> first_error es = None"
  by (induction es rule: first_error.induct) simp_all

lemma scan_nest: "room < n \<Longrightarrow> scan room m (nest n v) = Some RecursionError"
proof (induction n arbitrary: room)
  case 0
  then show ?case by simp
next
  case (Suc n)
  then show ?case by (cases room) simp_all
qed

lemma truthy_nest: "0 < n \<Longrightarrow> truthy (nest n v)"
  by (cases n) simp_all

lemma scan_dict_deep_last:
  assumes "\<forall>kv\<in>set kvs. scan room m (snd kv) = None" and "room < n"
  shows "scan (Suc room) m (PDict (kvs @ [(k, nest n v)])) = Some RecursionError"
  using assms by (simp add: first_error_append first_error_all_None scan_nest)

lemma get_json_Json:
  "get_json_silent s (Json v) =
     (case scan (Suc (recursion_room s)) (int_max_str_digits s) v of
        None \<Rightarrow> Inr v
      | Some e \<Rightarrow> if is_ValueError e then Inr PNone else Inl e)"
  by (simp add: get_json_silent.simps silent_def loads_def split: option.splits)

lemma int_digits_small: "\<bar>i\<bar> < 10 \<Longrightarrow> int_digits i = 1"
  by (simp add: int_digits_def str_nat.simps)

lemma length_str_nat: "0 < k \<Longrightarrow> (k < length (str_nat n)) = (10 ^ k \<le> n)"
proof (induction n arbitrary: k rule: str_nat.induct)
  case (1 n)
  show ?case
  proof (cases "n < 10")
    case True
    have "(10::nat) ^ 1 \<le> 10 ^ k" using 1(2) by (intro power_increasing) simp_all
    with True have "\<not> 10 ^ k \<le> n" by simp
    with True 1(2) show ?thesis by (simp add: str_nat.simps [of n])
  next
    case False
    show ?thesis
    proof (cases k)
      case 0
      with 1(2) show ?thesis by simp
    next
      case (Suc j)
      have len: "length (str_nat n) = Suc (length (str_nat (n div 10)))"
        using False by (simp add: str_nat.simps [of n])
      show ?thesis
      proof (cases "j = 0")
        case True
        have "0 < length (str_nat (n div 10))" by (simp add: str_nat.simps [of "n div 10"])
        with True Suc False len show ?thesis by simp
      next
        case j: False
        then have "(j < length (str_nat (n div 10))) = (10 ^ j \<le> n div 10)"
          using 1(1) [OF False, of j] by simp
        also have "\<dots> = (10 ^ j * 10 \<le> n)"
          by (simp add: less_eq_div_iff_mult_less_eq)
        finally show ?thesis using Suc len by (simp add: mult.commute)
      qed
    qed
  qed
qed

lemma int_digits_over: "m \<noteq> 0 \<Longrightarrow> (m < int_digits i) = (10 ^ m \<le> \<bar>i\<bar>)"
proof -
  assume "m \<noteq> 0"
  then have "(m < int_digits i) = (10 ^ m \<le> nat \<bar>i\<bar>)"
    by (simp add: int_digits_def length_str_nat)
  also have "\<dots> = (int (10 ^ m) \<le> \<bar>i\<bar>)" by linarith
  finally show ?thesis by simp
qed

lemma get_json_returns_iff:
  "(get_json_silent s (Json v) = Inr v)
     = (scan (Suc (recursion_room s)) (int_max_str_digits s) v = None)"
proof (cases "scan (Suc (recursion_room s)) (int_max_str_digits s) v")
  case None
  then show ?thesis by (simp add: get_json_Json)
next
  case (Some e)
  then have "v \<noteq> PNone" by auto
  with Some show ?thesis by (auto simp: get_json_Json)
qed

lemma get_json_login_request:
  "get_json_silent s (login_request u w) = Inr (PDict [(''username'', PStr u), (''password'', PStr w)])"
  by (simp add: login_request_def get_json_Json)

subsection \<open>The login handler, case by case\<close>

lemma mock_login_iff: "mock_login u w = (truthy u \<and> truthy w)"
  by (simp add: mock_login_def py_and_def)


lemma login_raises: "get_json_silent s p = Inl e \<Longrightarrow> login s p = (Inl e, s)"
  by (simp add: login_def)

text \<open>The handler on a body that \<^verbatim>\<open>data\<close> makes a dictionary of.\<close>

lemma login_dict:
  assumes "get_json_silent s p = Inr j"
      and "py_or j (PDict []) = PDict kvs"
      and "dict_get (PDict kvs) ''username'' (PStr '''') = Inr u"
      and "dict_get (PDict kvs) ''password'' (PStr '''') = Inr w"
  shows "login s p =
     (if truthy u \<and> truthy w
      then (Inr (login_ok (fst (token_hex 16 (entropy s)))),
            s\<lparr>SESSIONS := (SESSIONS s)(fst (token_hex 16 (entropy s)) \<mapsto> u),
              entropy := snd (token_hex 16 (entropy s))\<rparr>)
      else (Inr invalid_credentials, s))"
  using assms unfolding login_def Let_def
  by (simp add: mock_login_iff case_prod_beta)

lemma login_empty_data:
  "get_json_silent s p = Inr PNone \<Longrightarrow> login s p = (Inr invalid_credentials, s)"
  by (simp add: login_dict [of s p PNone "[]" "PStr ''''" "PStr ''''"] py_or_def)

lemma login_truthy_fields:
  assumes "get_json_silent s (Json (PDict kvs)) = Inr (PDict kvs)"
      and "map_of kvs ''username'' = Some u" and "map_of kvs ''password'' = Some w"
  shows "login s (Json (PDict kvs)) =
     (if truthy u \<and> truthy w
      then (Inr (login_ok (fst (token_hex 16 (entropy s)))),
            s\<lparr>SESSIONS := (SESSIONS s)(fst (token_hex 16 (entropy s)) \<mapsto> u),
              entropy := snd (token_hex 16 (entropy s))\<rparr>)
      else (Inr invalid_credentials, s))"
proof -
  from assms(2) have "kvs \<noteq> []" by auto
  then have "py_or (PDict kvs) (PDict []) = PDict kvs"
    by (simp add: py_or_def)
  moreover have "dict_get (PDict kvs) ''username'' (PStr '''') = Inr u"
    using assms(2) by simp
  moreover have "dict_get (PDict kvs) ''password'' (PStr '''') = Inr w"
    using assms(3) by simp
  ultimately show ?thesis using assms(1) by (intro login_dict)
qed

lemma login_cases:
  "(\<exists>e. login s p = (Inl e, s)) \<or> login s p = (Inr invalid_credentials, s) \<or>
   (\<exists>u. login s p =
      (Inr (login_ok (fst (token_hex 16 (entropy s)))),
       s\<lparr>SESSIONS := (SESSIONS s)(fst (token_hex 16 (entropy s)) \<mapsto> u),
         entropy := snd (token_hex 16 (entropy s))\<rparr>))"
  unfolding login_def Let_def
  by (auto simp: case_prod_beta split: sum.splits)

subsection \<open>Runs of the server\<close>

lemma issued_token_login_ok: "issued_token (Inr (login_ok t)) = Some t"
  by (simp add: issued_token_def login_ok_def)

lemma issued_token_invalid: "issued_token (Inr invalid_credentials) = None"
  by (simp add: issued_token_def invalid_credentials_def)

lemma issued_token_portfolio: "issued_token (Inr (portfolio s r)) = None"
  by (simp add: issued_token_def portfolio_def unauthorized_def Let_def)

lemma issued_token_Inl: "issued_token (Inl e) = None"
  by (simp add: issued_token_def)

lemmas issued_token_simps =
  issued_token_login_ok issued_token_invalid issued_token_portfolio issued_token_Inl

lemma handle_not_issued:
  assumes "issued_token (fst (handle s q)) = None"
  shows "snd (handle s q) = s"
proof (cases q)
  case (POST_login p)
  with assms login_cases [of s p] show ?thesis
    by (auto simp: issued_token_simps)
next
  case (GET_portfolio r)
  then show ?thesis by simp
qed

lemma handle_issued:
  assumes "issued_token (fst (handle s q)) = Some t"
  shows "t = fst (token_hex 16 (entropy s)) \<and>
         (\<exists>u. SESSIONS (snd (handle s q)) = (SESSIONS s)(t \<mapsto> u))"
proof (cases q)
  case (POST_login p)
  with assms login_cases [of s p] show ?thesis
    by (auto simp: issued_token_simps)
next
  case (GET_portfolio r)
  with assms show ?thesis by (simp add: issued_token_simps)
qed

lemma handle_not_login_ok:
  assumes "\<And>t. fst (handle s q) \<noteq> Inr (login_ok t)"
  shows "snd (handle s q) = s"
proof (cases q)
  case (POST_login p)
  with assms [of "fst (token_hex 16 (entropy s))"] login_cases [of s p] show ?thesis by auto
next
  case (GET_portfolio r)
  then show ?thesis by simp
qed

lemma issued_length: "t \<in> set (issued s qs) \<Longrightarrow> length t = 32"
proof (induction qs arbitrary: s)
  case Nil
  then show ?case by simp
next
  case (Cons q qs)
  show ?case
  proof (cases "issued_token (fst (handle s q))")
    case None
    with Cons show ?thesis by simp
  next
    case (Some t')
    from handle_issued [OF Some] have "length t' = 32" by (simp add: token_hex_length)
    with Cons Some show ?thesis by auto
  qed
qed

lemma dom_run: "dom (SESSIONS (run s qs)) = dom (SESSIONS s) \<union> set (issued s qs)"
proof (induction qs arbitrary: s)
  case Nil
  then show ?case by simp
next
  case (Cons q qs)
  show ?case
  proof (cases "issued_token (fst (handle s q))")
    case None
    with Cons handle_not_issued [OF None] show ?thesis by simp
  next
    case (Some t')
    from handle_issued [OF Some] obtain u
      where "SESSIONS (snd (handle s q)) = (SESSIONS s)(t' \<mapsto> u)" by blast
    with Cons Some show ?thesis by auto
  qed
qed

lemma run_keeps:
  "t \<notin> set (issued s qs) \<Longrightarrow> SESSIONS (run s qs) t = SESSIONS s t"
proof (induction qs arbitrary: s)
  case Nil
  then show ?case by simp
next
  case (Cons q qs)
  show ?case
  proof (cases "issued_token (fst (handle s q))")
    case None
    with Cons handle_not_issued [OF None] show ?thesis by simp
  next
    case (Some t')
    from handle_issued [OF Some] obtain u
      where "SESSIONS (snd (handle s q)) = (SESSIONS s)(t' \<mapsto> u)" by blast
    with Cons Some show ?thesis by auto
  qed
qed

lemma run_portfolios: "run s (map GET_portfolio rs) = s"
  by (induction rs) simp_all

subsection \<open>The example states\<close>

lemma strip_Nil: "strip [] = []"
  by (simp add: strip_def lstrip_def rstrip_def)

lemma login_request_ok:
  assumes "u \<noteq> []" and "w \<noteq> []"
  shows "login s (login_request u w) =
     (Inr (login_ok (fst (token_hex 16 (entropy s)))),
      s\<lparr>SESSIONS := (SESSIONS s)(fst (token_hex 16 (entropy s)) \<mapsto> PStr u),
        entropy := snd (token_hex 16 (entropy s))\<rparr>)"
  using assms login_truthy_fields [of s "[(''username'', PStr u), (''password'', PStr w)]"
      "PStr u" "PStr w"] get_json_login_request [of s u w]
  by (simp add: login_request_def)

lemma start_fields:
  "SESSIONS start = Map.empty" "entropy start = zero_entropy"
  "recursion_room start = 999" "int_max_str_digits start = 4300"
  by (simp_all add: start_def init_def)

lemma alice_sessions:
  "SESSIONS alice_logged_in = [''00000000000000000000000000000000'' \<mapsto> PStr ''alice'']"
  by (simp add: alice_logged_in_def login_request_ok start_fields zero_token)

lemma alice_entropy: "entropy alice_logged_in = zero_entropy"
  by (simp add: alice_logged_in_def login_request_ok start_fields zero_entropy_rest)

lemma alice_issued:
  "issued start [POST_login (login_request ''alice'' ''secret'')]
     = [''00000000000000000000000000000000'']"
  by (simp add: login_request_ok start_fields zero_token issued_token_simps)

lemma alice_counted_sessions:
  "SESSIONS alice_counted = [''000102030405060708090a0b0c0d0e0f'' \<mapsto> PStr ''alice'']"
  by (simp add: alice_counted_def counting_start_def init_def login_request_ok counting_token)

lemma alice_counted_entropy:
  "entropy alice_counted = snd (token_hex 16 counting_entropy)"
  by (simp add: alice_counted_def counting_start_def init_def login_request_ok)

subsection \<open>Login: which requests are rejected\<close>




subsection \<open>Login: the round trip\<close>

text \<open>
  C2. For every non-empty username and password, the login that carries them (the JSON
  object with these two fields, as the client sends it) answers 200 with the token
  \<^verbatim>\<open>token_hex(16)\<close> drew, in the body and in the cookie; the token is 32 characters long,
  all of them hexadecimal digits; the session map afterwards is the old one with the
  token mapped to the username; and the token then validates, the record under it being
  that username. The same holds for any JSON object that carries them and that the
  decoder returns.
\<close>

theorem login_roundtrip:
  assumes "u \<noteq> []" and "w \<noteq> []"
      and "tok = fst (token_hex 16 (entropy s))"
  shows "fst (login s (login_request u w)) = Inr (login_ok tok)
       \<and> body (login_ok tok) = PDict [(''ok'', PBool True), (''token'', PStr tok)]
       \<and> length tok = 32 \<and> list_all is_hex tok
       \<and> SESSIONS (snd (login s (login_request u w))) = (SESSIONS s)(tok \<mapsto> PStr u)
       \<and> validate_token (snd (login s (login_request u w))) (Some tok)
       \<and> SESSIONS (snd (login s (login_request u w))) tok = Some (PStr u)
       \<and> (get_json_silent s (Json (PDict kvs)) = Inr (PDict kvs)
            \<and> map_of kvs ''username'' = Some (PStr u)
            \<and> map_of kvs ''password'' = Some (PStr w) \<longrightarrow>
          fst (login s (Json (PDict kvs))) = Inr (login_ok tok)
          \<and> SESSIONS (snd (login s (Json (PDict kvs)))) = (SESSIONS s)(tok \<mapsto> PStr u)
          \<and> validate_token (snd (login s (Json (PDict kvs)))) (Some tok)
          \<and> SESSIONS (snd (login s (Json (PDict kvs)))) tok = Some (PStr u))"
  using assms token_hex_length [of 16 "entropy s"] token_hex_is_hex [of 16 "entropy s"]
  by (auto simp: login_request_ok login_truthy_fields login_ok_def)

theorem login_roundtrip_witness:
  "fst (login start (login_request ''alice'' ''secret''))
     = Inr (login_ok ''00000000000000000000000000000000'')
   \<and> validate_token (snd (login start (login_request ''alice'' ''secret'')))
       (Some ''00000000000000000000000000000000'')
   \<and> SESSIONS (snd (login start (login_request ''alice'' ''secret'')))
       ''00000000000000000000000000000000'' = Some (PStr ''alice'')"
proof -
  have t: "''00000000000000000000000000000000'' = fst (token_hex 16 (entropy start))"
    by (simp add: start_fields zero_token)
  from login_roundtrip [OF _ _ t, of "''alice''" "''secret''"] show ?thesis
    by simp
qed

subsection \<open>Login: bodies that do not parse, and fields that are not strings\<close>

text \<open>
  C9, as stated: every login whose body is not valid JSON is answered 401, a parse error
  never being surfaced as a distinct status. A body of 1001 opening brackets is not
  valid JSON; with the default recursion limit the decoder raises \<^verbatim>\<open>RecursionError\<close>
  before it reaches the end of it, \<^verbatim>\<open>silent=True\<close> swallows only \<^verbatim>\<open>ValueError\<close>, and the
  request is answered 500.
\<close>

theorem login_deep_garbage_counterexample:
  "login start (NotJson 1001) = (Inl RecursionError, start)"
  by (simp add: login_def get_json_silent.simps silent_def is_ValueError_def start_fields)

text \<open>
  C9, amended. A login whose body is absent, is not declared as JSON, or is not a JSON
  document and fails within the nesting the decoder has room for, is handled as the empty
  object: \<^verbatim>\<open>get_json(silent=True)\<close> gives \<^verbatim>\<open>None\<close>, both fields default to the empty string
  and the answer is the 401 "invalid credentials" response, the state unchanged. A body
  that is not a JSON document and nests deeper than the decoder has room for before the
  error makes the decoder raise \<^verbatim>\<open>RecursionError\<close>, which escapes the handler (a 500
  response), the state unchanged.
\<close>

theorem login_undecodable_body:
  "login s Absent = (Inr invalid_credentials, s)
   \<and> login s Undeclared = (Inr invalid_credentials, s)
   \<and> (d \<le> Suc (recursion_room s) \<longrightarrow>
        get_json_silent s (NotJson d) = Inr PNone
        \<and> login s (NotJson d) = (Inr invalid_credentials, s))
   \<and> (Suc (recursion_room s) < d \<longrightarrow>
        get_json_silent s (NotJson d) = Inl RecursionError
        \<and> login s (NotJson d) = (Inl RecursionError, s))
   \<and> get_json_silent s Absent = Inr PNone
   \<and> get_json_silent s Undeclared = Inr PNone
   \<and> py_or PNone (PDict []) = PDict []
   \<and> dict_get (PDict []) ''username'' (PStr '''') = Inr (PStr '''')
   \<and> dict_get (PDict []) ''password'' (PStr '''') = Inr (PStr '''')
   \<and> status invalid_credentials = 401
   \<and> body invalid_credentials = PDict [(''error'', PStr ''invalid credentials'')]"
proof -
  have a: "get_json_silent s Absent = Inr PNone"
    and u: "get_json_silent s Undeclared = Inr PNone"
    by (simp_all add: get_json_silent.simps silent_def is_ValueError_def)
  have n: "get_json_silent s (NotJson d) = Inr PNone" if "d \<le> Suc (recursion_room s)"
    using that by (simp add: get_json_silent.simps silent_def is_ValueError_def)
  have r: "get_json_silent s (NotJson d) = Inl RecursionError" if "Suc (recursion_room s) < d"
    using that by (simp add: get_json_silent.simps silent_def is_ValueError_def)
  show ?thesis
    using a u n r
    by (simp add: login_empty_data login_raises py_or_def invalid_credentials_def)
qed

theorem login_undecodable_body_witness:
  "login start (NotJson 3) = (Inr invalid_credentials, start)
   \<and> login start (NotJson 2000) = (Inl RecursionError, start)"
  using login_undecodable_body [of start 3] login_undecodable_body [of start 2000]
  by (simp add: start_fields)

text \<open>
  C10, as stated: for every JSON body whose username and password are both truthy, of
  any JSON type, the login succeeds. The JSON object whose password is \<^verbatim>\<open>"x"\<close> and whose
  username is the number 1 inside 1000 arrays has two truthy fields; with the default
  recursion limit the decoder raises \<^verbatim>\<open>RecursionError\<close> on it and the request is answered
  500.
\<close>

theorem login_deep_username_counterexample:
  "login start (Json (PDict [(''password'', PStr ''x''), (''username'', nest 1000 (PInt 1))]))
     = (Inl RecursionError, start)
   \<and> dict_get (PDict [(''password'', PStr ''x''), (''username'', nest 1000 (PInt 1))])
       ''username'' (PStr '''') = Inr (nest 1000 (PInt 1))
   \<and> dict_get (PDict [(''password'', PStr ''x''), (''username'', nest 1000 (PInt 1))])
       ''password'' (PStr '''') = Inr (PStr ''x'')
   \<and> truthy (nest 1000 (PInt 1)) \<and> truthy (PStr ''x'')"
proof -
  have "scan (Suc (recursion_room start)) (int_max_str_digits start)
      (PDict ([(''password'', PStr ''x'')] @ [(''username'', nest 1000 (PInt 1))]))
      = Some RecursionError"
    by (rule scan_dict_deep_last) (simp_all add: start_fields)
  then have "get_json_silent start
      (Json (PDict [(''password'', PStr ''x''), (''username'', nest 1000 (PInt 1))]))
      = Inl RecursionError"
    by (simp add: get_json_Json is_ValueError_def)
  then show ?thesis by (simp add: login_raises truthy_nest)
qed

text \<open>
  C10, amended. The credential check is by truthiness. For a JSON object that the decoder
  returns (one nested no deeper than the decoder has room for and with no integer longer
  than the digit limit) and whose username and password are both truthy, of whatever
  JSON type, the login succeeds and the username value is stored as it is under the new
  token; when either is falsy the login is rejected. A non-zero number and \<^verbatim>\<open>true\<close> are
  truthy; \<^verbatim>\<open>0\<close>, \<^verbatim>\<open>false\<close> and \<^verbatim>\<open>null\<close> are falsy. A document on which the decoder raises
  \<^verbatim>\<open>RecursionError\<close> is answered 500, and one on which it raises \<^verbatim>\<open>ValueError\<close> counts as
  an empty body and is rejected, whatever its fields are: so is one whose username is an
  integer of more digits than the limit, truthy though it is.
\<close>

theorem login_by_truthiness:
  "(get_json_silent s (Json (PDict kvs)) = Inr (PDict kvs)
      \<and> map_of kvs ''username'' = Some u \<and> map_of kvs ''password'' = Some w
      \<and> truthy u \<and> truthy w \<longrightarrow>
      fst (login s (Json (PDict kvs))) = Inr (login_ok (fst (token_hex 16 (entropy s))))
      \<and> SESSIONS (snd (login s (Json (PDict kvs)))) (fst (token_hex 16 (entropy s))) = Some u)
   \<and> (get_json_silent s (Json (PDict kvs)) = Inr (PDict kvs)
      \<and> map_of kvs ''username'' = Some u \<and> map_of kvs ''password'' = Some w
      \<and> (\<not> truthy u \<or> \<not> truthy w) \<longrightarrow>
      login s (Json (PDict kvs)) = (Inr invalid_credentials, s))
   \<and> ((get_json_silent s (Json v) = Inr v)
      = (scan (Suc (recursion_room s)) (int_max_str_digits s) v = None))
   \<and> (scan (Suc (recursion_room s)) (int_max_str_digits s) v = Some RecursionError \<longrightarrow>
      login s (Json v) = (Inl RecursionError, s))
   \<and> (scan (Suc (recursion_room s)) (int_max_str_digits s) v = Some ValueError \<longrightarrow>
      login s (Json v) = (Inr invalid_credentials, s))
   \<and> (int_max_str_digits s \<noteq> 0 \<and> 10 ^ int_max_str_digits s \<le> \<bar>i\<bar> \<longrightarrow>
      truthy (PInt i)
      \<and> login s (Json (PDict [(''username'', PInt i), (''password'', x)]))
          = (Inr invalid_credentials, s))
   \<and> truthy (PInt 5) \<and> truthy (PBool True)
   \<and> \<not> truthy (PInt 0) \<and> \<not> truthy (PBool False) \<and> \<not> truthy PNone"
proof -
  have rec: "login s (Json v) = (Inl RecursionError, s)"
    if "scan (Suc (recursion_room s)) (int_max_str_digits s) v = Some RecursionError"
    using that by (simp add: login_raises get_json_Json is_ValueError_def)
  have val: "login s (Json v) = (Inr invalid_credentials, s)"
    if "scan (Suc (recursion_room s)) (int_max_str_digits s) v = Some ValueError"
    using that by (simp add: login_empty_data get_json_Json is_ValueError_def)
  have big: "truthy (PInt i)
      \<and> login s (Json (PDict [(''username'', PInt i), (''password'', x)]))
          = (Inr invalid_credentials, s)"
    if "int_max_str_digits s \<noteq> 0" "10 ^ int_max_str_digits s \<le> \<bar>i\<bar>"
  proof -
    have "(0::int) < 10 ^ int_max_str_digits s" by simp
    with that(2) have "i \<noteq> 0" by linarith
    moreover have "scan (Suc (recursion_room s)) (int_max_str_digits s)
        (PDict [(''username'', PInt i), (''password'', x)]) = Some ValueError"
      using that by (simp add: int_digits_over)
    then have "login s (Json (PDict [(''username'', PInt i), (''password'', x)]))
        = (Inr invalid_credentials, s)"
      by (simp add: login_empty_data get_json_Json is_ValueError_def)
    ultimately show ?thesis by simp
  qed
  show ?thesis
    using rec val big get_json_returns_iff [of s v]
    by (auto simp: login_truthy_fields)
qed

theorem login_by_truthiness_witness:
  "fst (login start (Json (PDict [(''username'', PInt 7), (''password'', PBool True)])))
     = Inr (login_ok ''00000000000000000000000000000000'')
   \<and> SESSIONS (snd (login start
        (Json (PDict [(''username'', PInt 7), (''password'', PBool True)]))))
       ''00000000000000000000000000000000'' = Some (PInt 7)
   \<and> login start (Json (PDict [(''username'', PNone), (''password'', PBool True)]))
     = (Inr invalid_credentials, start)"
proof -
  have 1: "get_json_silent start (Json (PDict [(''username'', PInt 7), (''password'', PBool True)]))
      = Inr (PDict [(''username'', PInt 7), (''password'', PBool True)])"
    by (simp add: get_json_Json int_digits_small start_fields(4))
  have 2: "get_json_silent start (Json (PDict [(''username'', PNone), (''password'', PBool True)]))
      = Inr (PDict [(''username'', PNone), (''password'', PBool True)])"
    by (simp add: get_json_Json)
  from login_by_truthiness [of start "[(''username'', PInt 7), (''password'', PBool True)]"
      "PInt 7" "PBool True"]
    login_by_truthiness [of start "[(''username'', PNone), (''password'', PBool True)]"
      "PNone" "PBool True"] 1 2
  show ?thesis by (simp add: start_fields(2) zero_token)
qed

subsection \<open>The portfolio stub\<close>

text \<open>
  C6. \<^verbatim>\<open>mock_fetch_portfolio\<close> returns a value for every argument, and the same value for
  any two arguments: the snapshot whose positions are the three records AAPL (quantity
  120, price 187.42, profit 141.6), MSFT (80, 422.15, -51.2) and DMSO (800, 1000.0, 1000),
  in this order, and whose cash is 18250. Any two authorized GET /api/portfolio requests,
  in whatever states, get the same 200 response, whose body is that snapshot.
\<close>

theorem fetch_independent:
  "mock_fetch_portfolio u = mock_fetch_portfolio v
   \<and> mock_fetch_portfolio u = PDict
       [(''positions'', PList
          [PDict [(''symbol'', PStr ''AAPL''), (''quantity'', PInt 120),
                  (''price'', PFloat (Finite (Fract 6594255016888893 35184372088832))),
                  (''pnl'', PFloat (Finite (Fract 4982107087778611 35184372088832)))],
           PDict [(''symbol'', PStr ''MSFT''), (''quantity'', PInt 80),
                  (''price'', PFloat (Finite (Fract 3713270669325107 8796093022208))),
                  (''pnl'', PFloat (Finite (Fract (- 3602879701896397) 70368744177664)))],
           PDict [(''symbol'', PStr ''DMSO''), (''quantity'', PInt 800),
                  (''price'', PFloat (Finite 1000)),
                  (''pnl'', PInt 1000)]]),
        (''cash'', PInt 18250)]
   \<and> (validate_token s (Some (presented_token r)) \<and> validate_token s' (Some (presented_token r'))
        \<longrightarrow> portfolio s r = portfolio s' r' \<and> status (portfolio s r) = 200
          \<and> body (portfolio s r) = mock_fetch_portfolio u
          \<and> set_cookie (portfolio s r) = None)
   \<and> (\<exists>ps. dict_get (mock_fetch_portfolio u) ''positions'' PNone = Inr (PList ps) \<and> length ps = 3)
   \<and> dict_get (mock_fetch_portfolio u) ''cash'' PNone = Inr (PInt 18250)"
  by (simp add: mock_fetch_portfolio_def portfolio_def Let_def)

theorem fetch_independent_witness:
  "portfolio alice_logged_in (raw_authorization ''00000000000000000000000000000000'')
     = portfolio alice_logged_in (cookie_and_bearer ''00000000000000000000000000000000'' ''deadbeef'')
   \<and> status (portfolio alice_logged_in (raw_authorization ''00000000000000000000000000000000''))
     = 200
   \<and> body (portfolio alice_logged_in (raw_authorization ''00000000000000000000000000000000''))
     = mock_fetch_portfolio ''bob''"
proof -
  have 1: "validate_token alice_logged_in
      (Some (presented_token (raw_authorization ''00000000000000000000000000000000'')))"
    by (simp add: raw_authorization_def presented_token_def header_token_def removeprefix_def
        startswith_def strip_def lstrip_def rstrip_def isspace_def alice_sessions)
  have 2: "validate_token alice_logged_in
      (Some (presented_token (cookie_and_bearer ''00000000000000000000000000000000'' ''deadbeef'')))"
    by (simp add: cookie_and_bearer_def presented_token_def alice_sessions)
  from fetch_independent [of "''bob''" _ alice_logged_in
      "raw_authorization ''00000000000000000000000000000000''" alice_logged_in
      "cookie_and_bearer ''00000000000000000000000000000000'' ''deadbeef''"] 1 2
  show ?thesis by blast
qed

subsection \<open>Validation\<close>

text \<open>
  C3. \<^verbatim>\<open>validate_token\<close> accepts a presented value exactly when it is a key of the
  session map. In a state reached from the initial one (an empty map) by any sequence of
  requests, the keys are exactly the tokens the successful logins returned; so a token
  that no login returned is refused, and so are the empty string and \<^verbatim>\<open>None\<close>. When the
  presented token is refused, GET /api/portfolio answers 401 with body
  \<^verbatim>\<open>{"error": "unauthorized"}\<close>; a request with neither cookie nor \<^verbatim>\<open>Authorization\<close> header
  presents the empty string and gets that answer.
\<close>

theorem validate_iff_key:
  "(validate_token s tok = (\<exists>t. tok = Some t \<and> t \<in> dom (SESSIONS s)))
   \<and> (validate_token (run (init room m rnd) qs) (Some t) = (t \<in> set (issued (init room m rnd) qs)))
   \<and> \<not> validate_token (run (init room m rnd) qs) (Some '''')
   \<and> \<not> validate_token (run (init room m rnd) qs) None
   \<and> (\<not> validate_token s (Some (presented_token r)) \<longrightarrow> portfolio s r = unauthorized)
   \<and> (cookies r SESSION_COOKIE = None \<and> headers r ''Authorization'' = None \<longrightarrow>
        presented_token r = '''' \<and> portfolio (run (init room m rnd) qs) r = unauthorized)
   \<and> status unauthorized = 401
   \<and> body unauthorized = PDict [(''error'', PStr ''unauthorized'')]"
proof -
  have key: "validate_token s tok = (\<exists>t. tok = Some t \<and> t \<in> dom (SESSIONS s))"
    by (cases tok) auto
  have reach: "validate_token (run (init room m rnd) qs) (Some t) = (t \<in> set (issued (init room m rnd) qs))" for t
    using dom_run [of "init room m rnd" qs] by (auto simp: init_def)
  have "[] \<notin> set (issued (init room m rnd) qs)"
    using issued_length [of "[]" "init room m rnd" qs] by auto
  then have empty: "\<not> validate_token (run (init room m rnd) qs) (Some '''')"
    using reach [of "[]"] by blast
  have deny: "\<not> validate_token s (Some (presented_token r)) \<Longrightarrow> portfolio s r = unauthorized"
    by (simp add: portfolio_def Let_def)
  have none: "presented_token r = ''''"
    if "cookies r SESSION_COOKIE = None" "headers r ''Authorization'' = None"
    using that by (simp add: presented_token_def header_token_def removeprefix_def startswith_def strip_Nil)
  have absent: "portfolio (run (init room m rnd) qs) r = unauthorized"
    if "cookies r SESSION_COOKIE = None" "headers r ''Authorization'' = None"
    using none [OF that] empty by (simp add: portfolio_def Let_def)
  show ?thesis
    using key reach empty deny none absent by (simp add: unauthorized_def)
qed

theorem validate_iff_key_witness:
  "\<not> validate_token alice_logged_in (Some ''deadbeef'')
   \<and> validate_token alice_logged_in (Some ''00000000000000000000000000000000'')
   \<and> portfolio alice_logged_in no_credentials = unauthorized"
  using validate_iff_key [where s = alice_logged_in and tok = "Some ''deadbeef''"
      and room = 999 and m = 4300 and rnd = zero_entropy
      and qs = "[POST_login (login_request ''alice'' ''secret'')]" and t = "''deadbeef''"
      and r = no_credentials,
      folded start_def, folded alice_logged_in_def, unfolded alice_issued]
    validate_iff_key [where s = alice_logged_in and tok = "Some ''deadbeef''"
      and room = 999 and m = 4300 and rnd = zero_entropy
      and qs = "[POST_login (login_request ''alice'' ''secret'')]"
      and t = "''00000000000000000000000000000000''" and r = no_credentials,
      folded start_def, folded alice_logged_in_def, unfolded alice_issued]
  by (simp add: no_credentials_def)

subsection \<open>Which credential is validated\<close>

text \<open>
  C4, as stated: for every request carrying both a cookie value and a bearer header,
  the cookie value is the one validated. A request whose \<^verbatim>\<open>ibkr_session\<close> cookie is
  present with the empty value and whose bearer header carries a valid token is
  answered 200: the empty cookie is falsy, so Python's \<^verbatim>\<open>or\<close> moves on to the header.
\<close>

theorem empty_cookie_falls_through_counterexample:
  "cookies (cookie_and_bearer '''' ''00000000000000000000000000000000'') SESSION_COOKIE = Some ''''
   \<and> headers (cookie_and_bearer '''' ''00000000000000000000000000000000'') ''Authorization''
       = Some ''Bearer 00000000000000000000000000000000''
   \<and> presented_token (cookie_and_bearer '''' ''00000000000000000000000000000000'')
       = ''00000000000000000000000000000000''
   \<and> \<not> validate_token alice_logged_in (Some '''')
   \<and> status (portfolio alice_logged_in (cookie_and_bearer '''' ''00000000000000000000000000000000'')) = 200"
  by (simp add: cookie_and_bearer_def presented_token_def header_token_def removeprefix_def
      startswith_def strip_def lstrip_def rstrip_def isspace_def portfolio_def Let_def alice_sessions)

text \<open>
  C4, amended. The token is extracted by trying the cookie first, then the
  \<^verbatim>\<open>Authorization\<close> header. For every request carrying a non-empty cookie value, with or
  without a bearer header, the cookie value is the one validated and decides the answer.
  A request whose cookie is absent or empty presents the header's token.
\<close>

theorem cookie_first_when_nonempty:
  "(cookies r SESSION_COOKIE = Some c \<and> c \<noteq> [] \<longrightarrow>
      presented_token r = c
      \<and> portfolio s r =
          (if validate_token s (Some c)
           then \<lparr>status = 200, body = mock_fetch_portfolio c, set_cookie = None\<rparr>
           else unauthorized))
   \<and> (cookies r SESSION_COOKIE = None \<or> cookies r SESSION_COOKIE = Some [] \<longrightarrow>
      presented_token r = header_token r)"
  by (auto simp: presented_token_def portfolio_def Let_def)

theorem cookie_first_when_nonempty_witness:
  "presented_token (cookie_and_bearer ''00000000000000000000000000000000'' ''deadbeef'')
     = ''00000000000000000000000000000000''
   \<and> status (portfolio alice_logged_in
        (cookie_and_bearer ''00000000000000000000000000000000'' ''deadbeef'')) = 200
   \<and> presented_token (cookie_and_bearer '''' ''deadbeef'')
     = header_token (cookie_and_bearer '''' ''deadbeef'')"
  using cookie_first_when_nonempty [of "cookie_and_bearer ''00000000000000000000000000000000'' ''deadbeef''"
      "''00000000000000000000000000000000''" alice_logged_in]
    cookie_first_when_nonempty [of "cookie_and_bearer '''' ''deadbeef''" "''''" alice_logged_in]
  by (simp add: cookie_and_bearer_def alice_sessions)

lemma is_hex_not_space: "is_hex c \<Longrightarrow> \<not> isspace c"
  by (auto simp: is_hex_def hex_digits_def isspace_def)

lemma dropWhile_none: "\<forall>x\<in>set xs. \<not> P x \<Longrightarrow> dropWhile P xs = xs"
  by (cases xs) auto

lemma strip_no_space: "\<forall>c\<in>set t. \<not> isspace c \<Longrightarrow> strip t = t"
  by (simp add: strip_def lstrip_def rstrip_def dropWhile_none)

lemma not_startswith_Bearer: "list_all is_hex t \<Longrightarrow> \<not> startswith t ''Bearer ''"
  by (cases t) (auto simp: startswith_def is_hex_def hex_digits_def)

lemma header_token_hex:
  assumes "list_all is_hex t"
  shows "strip (removeprefix t ''Bearer '') = t"
proof -
  from assms have "\<forall>c\<in>set t. \<not> isspace c"
    by (auto simp: list_all_iff is_hex_not_space)
  then show ?thesis
    using not_startswith_Bearer [OF assms] by (simp add: removeprefix_def strip_no_space)
qed

text \<open>
  C8. The \<^verbatim>\<open>Bearer \<close> prefix is optional. For a request with no \<^verbatim>\<open>ibkr_session\<close> cookie and
  an \<^verbatim>\<open>Authorization\<close> header whose value, once a leading \<^verbatim>\<open>Bearer \<close> is removed and the
  result stripped, is a key of the session map, that key is the presented token, it
  validates, and the answer is 200 with the snapshot. In particular a key made of
  hexadecimal digits, as every issued token is, is accepted when sent raw as the header
  value.
\<close>

theorem bearer_prefix_optional:
  "(cookies r SESSION_COOKIE = None \<and> headers r ''Authorization'' = Some h
      \<and> strip (removeprefix h ''Bearer '') \<in> dom (SESSIONS s) \<longrightarrow>
      presented_token r = strip (removeprefix h ''Bearer '')
      \<and> validate_token s (Some (presented_token r))
      \<and> portfolio s r =
          \<lparr>status = 200, body = mock_fetch_portfolio (presented_token r), set_cookie = None\<rparr>)
   \<and> (cookies r SESSION_COOKIE = None \<and> headers r ''Authorization'' = Some t
      \<and> t \<in> dom (SESSIONS s) \<and> list_all is_hex t \<longrightarrow>
      presented_token r = t \<and> status (portfolio s r) = 200)"
  by (auto simp: presented_token_def header_token_def portfolio_def Let_def header_token_hex)

theorem bearer_prefix_optional_witness:
  "presented_token (raw_authorization ''00000000000000000000000000000000'')
     = ''00000000000000000000000000000000''
   \<and> status (portfolio alice_logged_in (raw_authorization ''00000000000000000000000000000000'')) = 200"
proof -
  have 1: "cookies (raw_authorization ''00000000000000000000000000000000'') SESSION_COOKIE = None"
    by (simp add: raw_authorization_def)
  have 2: "headers (raw_authorization ''00000000000000000000000000000000'') ''Authorization''
      = Some ''00000000000000000000000000000000''"
    by (simp add: raw_authorization_def)
  have 3: "''00000000000000000000000000000000'' \<in> dom (SESSIONS alice_logged_in)"
    by (simp add: alice_sessions)
  have 4: "list_all is_hex ''00000000000000000000000000000000''"
    by (simp add: is_hex_def hex_digits_def)
  from bearer_prefix_optional [of "raw_authorization ''00000000000000000000000000000000''"
      "''00000000000000000000000000000000''" alice_logged_in "''00000000000000000000000000000000''"]
    1 2 3 4
  show ?thesis by blast
qed

subsection \<open>The session map over time\<close>

text \<open>
  C5, as stated: a session record, once inserted, is never mutated. The code draws each
  token without checking that it is new. When the random source delivers the same 16
  bytes twice, the second login returns the token of the first and overwrites its
  record: alice's token then belongs to bob.
\<close>

theorem session_overwritten_counterexample:
  "SESSIONS alice_logged_in ''00000000000000000000000000000000'' = Some (PStr ''alice'')
   \<and> fst (handle alice_logged_in (POST_login (login_request ''bob'' ''hunter2'')))
       = Inr (login_ok ''00000000000000000000000000000000'')
   \<and> SESSIONS (run alice_logged_in [POST_login (login_request ''bob'' ''hunter2'')])
       ''00000000000000000000000000000000'' = Some (PStr ''bob'')"
  by (simp add: alice_sessions alice_entropy login_request_ok zero_token)

text \<open>
  C5, amended. A GET /api/portfolio leaves the state as it was, and so does every request
  that is not answered with a successful login: only a successful login changes the
  session map. Over any sequence of requests no key leaves the map, so a token that
  validates keeps validating; and the record under a token is what it was unless a login
  in that sequence returned that very token again (the only way a record is ever
  mutated). Any number of portfolio requests, each of which validates a token, leave the
  state unchanged, so validating the same token again gives the same result and the
  same answer.
\<close>

theorem sessions_persist:
  "snd (handle s (GET_portfolio r)) = s
   \<and> ((\<forall>t. fst (handle s q) \<noteq> Inr (login_ok t)) \<longrightarrow> snd (handle s q) = s)
   \<and> dom (SESSIONS s) \<subseteq> dom (SESSIONS (run s qs))
   \<and> (validate_token s tok \<longrightarrow> validate_token (run s qs) tok)
   \<and> (t \<notin> set (issued s qs) \<longrightarrow> SESSIONS (run s qs) t = SESSIONS s t)
   \<and> (SESSIONS (run s qs) t \<noteq> SESSIONS s t \<longrightarrow> t \<in> set (issued s qs))
   \<and> run s (map GET_portfolio rs) = s
   \<and> validate_token (run s (map GET_portfolio rs)) tok = validate_token s tok
   \<and> portfolio (run s (map GET_portfolio rs)) r = portfolio s r"
proof -
  have sub: "dom (SESSIONS s) \<subseteq> dom (SESSIONS (run s qs))"
    using dom_run [of s qs] by auto
  have "validate_token (run s qs) tok" if "validate_token s tok"
    using that sub by (cases tok) auto
  then show ?thesis
    using handle_not_login_ok [of s q] sub run_keeps [of t s qs]
    by (auto simp: run_portfolios)
qed

theorem sessions_persist_witness:
  "issued alice_counted [GET_portfolio no_credentials,
       POST_login (login_request ''bob'' ''hunter2''),
       GET_portfolio (portfolio_request ''000102030405060708090a0b0c0d0e0f'')]
     = [''101112131415161718191a1b1c1d1e1f'']
   \<and> SESSIONS (run alice_counted [GET_portfolio no_credentials,
       POST_login (login_request ''bob'' ''hunter2''),
       GET_portfolio (portfolio_request ''000102030405060708090a0b0c0d0e0f'')])
     ''000102030405060708090a0b0c0d0e0f'' = Some (PStr ''alice'')
   \<and> validate_token (run alice_counted [GET_portfolio no_credentials,
       POST_login (login_request ''bob'' ''hunter2''),
       GET_portfolio (portfolio_request ''000102030405060708090a0b0c0d0e0f'')])
     (Some ''000102030405060708090a0b0c0d0e0f'')"
proof -
  let ?qs = "[GET_portfolio no_credentials, POST_login (login_request ''bob'' ''hunter2''),
       GET_portfolio (portfolio_request ''000102030405060708090a0b0c0d0e0f'')]"
  have i: "issued alice_counted ?qs = [''101112131415161718191a1b1c1d1e1f'']"
    by (simp add: login_request_ok issued_token_simps alice_counted_entropy counting_token_next)
  from sessions_persist [of alice_counted _ _ ?qs "Some ''000102030405060708090a0b0c0d0e0f''"
      "''000102030405060708090a0b0c0d0e0f''"] i
  show ?thesis by (simp add: alice_counted_sessions)
qed

subsection \<open>The command-line client\<close>

lemma str_nat_401: "str_nat 401 = ''401''"
  by (simp add: str_nat.simps digit_char_def)

lemma str_nat_201: "str_nat 201 = ''201''"
  by (simp add: str_nat.simps digit_char_def)

text \<open>
  C7, as stated: the client fails exactly when the status is not a 2xx success. On a
  201 response, which is a 2xx success, \<^verbatim>\<open>login\<close> prints the failure message and exits
  with code 1: both commands compare the status with 200.
\<close>

theorem cli_fails_on_201_counterexample:
  "login_cmd \<lparr>status_code = 201, resp_text = ''created'', resp_json = Inl JSONDecodeError\<rparr>
     = Exit 1 [] [''Login failed (201): created'']
   \<and> is_2xx 201"
  by (simp add: login_cmd_def str_nat_201 is_2xx_def)

text \<open>
  C7, amended. For both commands, the process exits with code 1, printing nothing to
  standard output and one line to standard error that carries the status code and ends
  with the raw response body, if and only if the response status is not 200. On a 200
  response whose body is a JSON object with a token, \<^verbatim>\<open>login\<close> exits with code 0 having
  printed the token; on a 200 response whose body is a JSON document, \<^verbatim>\<open>portfolio\<close> exits
  with code 0 having printed the document as \<^verbatim>\<open>json.dumps(..., indent=2)\<close> writes it.
\<close>

theorem cli_fails_iff_not_200:
  "((login_cmd resp =
       Exit 1 [] [''Login failed ('' @ str_nat (status_code resp) @ ''): '' @ resp_text resp])
      = (status_code resp \<noteq> 200))
   \<and> ((portfolio_cmd d resp =
       Exit 1 [] [''Request failed ('' @ str_nat (status_code resp) @ ''): '' @ resp_text resp])
      = (status_code resp \<noteq> 200))
   \<and> (status_code resp = 200 \<and> resp_json resp = Inr (PDict kvs) \<and> map_of kvs ''token'' = Some tok
        \<longrightarrow> login_cmd resp = Exit 0 [tok] [])
   \<and> (status_code resp = 200 \<and> resp_json resp = Inr j
        \<longrightarrow> portfolio_cmd d resp = Exit 0 [PStr (d j)] [])"
  by (auto simp: login_cmd_def portfolio_cmd_def split: sum.splits)

theorem cli_fails_iff_not_200_witness:
  "login_cmd \<lparr>status_code = 401, resp_text = ''denied'', resp_json = Inl JSONDecodeError\<rparr>
     = Exit 1 [] [''Login failed (401): denied'']
   \<and> login_cmd \<lparr>status_code = 200, resp_text = ''ok'',
        resp_json = Inr (PDict [(''ok'', PBool True), (''token'', PStr ''abc'')])\<rparr>
     = Exit 0 [PStr ''abc''] []"
  using cli_fails_iff_not_200 [of
      "\<lparr>status_code = 401, resp_text = ''denied'', resp_json = Inl JSONDecodeError\<rparr>"]
    cli_fails_iff_not_200 [of
      "\<lparr>status_code = 200, resp_text = ''ok'',
        resp_json = Inr (PDict [(''ok'', PBool True), (''token'', PStr ''abc'')])\<rparr>"
      _ "[(''ok'', PBool True), (''token'', PStr ''abc'')]" "PStr ''abc''"]
  by (simp add: str_nat_401)

end
